theory Spec2Isabelle
  imports Main "HOL-Library.AList"
begin

section \<open>Key bits of rest_framework_extensions.key_constructor.bits\<close>

subsection \<open>Python values, errors and fragments\<close>

text \<open>
  The values that occur as dictionary keys, dictionary values, positional arguments and
  attribute values: \<open>None\<close>, a text string, an integer. Strings are ASCII character lists.
\<close>

datatype pyval = VNone | VStr string | VInt int

text \<open>Every exception the module raises, catches, or lets through from a collaborator.\<close>

datatype error =
    AttributeError
  | KeyError
  | IndexError
  | TypeError
  | ValueError
  | ValidationError
  | EmptyResultSet
  | OtherException string

text \<open>A Python dict keeps insertion order and has distinct keys: an association list.\<close>

type_synonym dict = "(pyval \<times> pyval) list"

text \<open>
  What \<open>get_data\<close> returns: \<open>None\<close>, a text, a sequence of values (the \<open>args\<close> tuple or a
  list built from it), or the mapping a dict-sourced bit builds.
\<close>

datatype fragment =
    FNone
  | FText string
  | FSeq "pyval list"
  | FDict "(pyval \<times> string) list"

text \<open>An attribute probed with \<open>hasattr\<close>: absent, or present with a value.\<close>

datatype 'a attr = NoAttr | Attr 'a

text \<open>
  The \<open>params\<close> of a bit: \<open>None\<close>, the wildcard \<open>'*'\<close>, a list of selectors, or a mapping
  of option names to model classes (used by ModelNameKeyBit).
\<close>

record model_class =
  cls_module :: string
  cls_name :: string

datatype params =
    PNone
  | PStar
  | PList "pyval list"
  | PDict "(pyval \<times> model_class option) list"

subsection \<open>Text conversion\<close>

definition digit_char :: "nat \<Rightarrow> char" where
  "digit_char d = ''0123456789'' ! d"

function str_nat :: "nat \<Rightarrow> string" where
  "str_nat n = (if n < 10 then [digit_char n] else str_nat (n div 10) @ [digit_char (n mod 10)])"
  by pat_completeness auto
termination
  by (relation "measure (\<lambda>n. n)") auto

declare str_nat.simps [simp del]

definition str_int :: "int \<Rightarrow> string" where
  "str_int i = (if i < 0 then CHR ''-'' # str_nat (nat (- i)) else str_nat (nat i))"

text \<open>\<open>force_text(s)\<close>: a string is returned as it is, anything else goes through \<open>str\<close>.\<close>

fun force_text :: "pyval \<Rightarrow> string" where
  "force_text (VStr s) = s"
| "force_text (VInt i) = str_int i"
| "force_text VNone = ''None''"

text \<open>\<open>u'.'.join(pieces)\<close>\<close>

fun join_dot :: "string list \<Rightarrow> string" where
  "join_dot [] = []"
| "join_dot [s] = s"
| "join_dot (s # t # ts) = s @ ''.'' @ join_dot (t # ts)"

text \<open>\<open>str.lower()\<close>, \<open>str.upper()\<close> and \<open>str.replace('-', '_')\<close> on ASCII strings.\<close>

definition lower_char :: "char \<Rightarrow> char" where
  "lower_char c =
     (case map_of (zip ''ABCDEFGHIJKLMNOPQRSTUVWXYZ'' ''abcdefghijklmnopqrstuvwxyz'') c of
        None \<Rightarrow> c | Some d \<Rightarrow> d)"

definition upper_char :: "char \<Rightarrow> char" where
  "upper_char c =
     (case map_of (zip ''abcdefghijklmnopqrstuvwxyz'' ''ABCDEFGHIJKLMNOPQRSTUVWXYZ'') c of
        None \<Rightarrow> c | Some d \<Rightarrow> d)"

definition lower :: "string \<Rightarrow> string" where
  "lower s = map lower_char s"

definition upper :: "string \<Rightarrow> string" where
  "upper s = map upper_char s"

definition replace_dash :: "string \<Rightarrow> string" where
  "replace_dash s = map (\<lambda>c. if c = CHR ''-'' then CHR ''_'' else c) s"

subsection \<open>Dictionary access\<close>

text \<open>\<open>d.get(k)\<close>: the value, \<open>None\<close> when the key is missing.\<close>

definition dict_get :: "dict \<Rightarrow> pyval \<Rightarrow> pyval" where
  "dict_get d k = (case map_of d k of None \<Rightarrow> VNone | Some v \<Rightarrow> v)"


text \<open>\<open>d.keys()\<close>\<close>

definition dict_keys :: "('k \<times> 'v) list \<Rightarrow> 'k list" where
  "dict_keys d = map fst d"

subsection \<open>The context objects\<close>

text \<open>
  The collaborators are framework objects. Each is a record of what this module reads
  from it; a call into the framework that may raise is a value of type \<open>error + 'a\<close>.
\<close>

record py_renderer =
  format :: pyval

record py_user =
  is_authenticated :: bool
  pk :: pyval

text \<open>
  \<open>request.user\<close> may be missing (no authentication layer), \<open>None\<close>, or a user object;
  \<open>request.GET\<close> is read through \<open>get\<close> and \<open>keys\<close> only, so it is a dict here.
\<close>

record py_request =
  accepted_renderer :: "py_renderer attr"
  request_user :: "py_user option attr"
  META :: dict
  GET :: dict

text \<open>A paginator exposes each of its two parameter names or not.\<close>

record py_paginator =
  page_query_param :: "pyval attr"
  page_size_query_param :: "pyval attr"

text \<open>
  A queryset: its model, whether it is an instance of \<open>EmptyQuerySet\<close>, the outcome of
  \<open>queryset.query.__str__()\<close>, of \<open>queryset.count()\<close>, of rendering
  \<open>queryset.values_list()\<close> as text, and of \<open>queryset.filter\<close> called with \<open>field=value\<close>.
\<close>

datatype queryset = QuerySet
  (qs_model: model_class)
  (is_EmptyQuerySet: bool)
  (query_str: "error + string")
  (qs_count: "error + int")
  (values_list_text: "error + string")
  (qs_filter: "string \<Rightarrow> pyval \<Rightarrow> error + queryset")

text \<open>
  A view: \<open>__module__\<close>, \<open>__class__.__name__\<close>, the \<open>paginator\<close> attribute (missing, \<open>None\<close>
  or a paginator), \<open>get_queryset()\<close>, \<open>filter_queryset(qs)\<close>, \<open>kwargs\<close> and \<open>lookup_field\<close>.
\<close>

record py_view =
  view_module :: string
  view_class_name :: string
  paginator :: "py_paginator option attr"
  get_queryset :: "error + queryset"
  filter_queryset :: "queryset \<Rightarrow> error + queryset"
  view_kwargs :: dict
  lookup_field :: string

text \<open>A view method is read through its \<open>__name__\<close> only.\<close>

type_synonym py_method = string

subsection \<open>Simple scalar bits\<close>

text \<open>
  \<open>ext_api_settings.DEFAULT_CACHE_ANY_VALUE\<close> is a setting; every bit that reads it takes
  it as its first argument.
\<close>

definition UniqueViewIdKeyBit_get_data ::
  "fragment \<Rightarrow> params \<Rightarrow> py_view option \<Rightarrow> py_method option \<Rightarrow> py_request option \<Rightarrow>
   pyval list \<Rightarrow> dict \<Rightarrow> error + fragment" where
  "UniqueViewIdKeyBit_get_data DEFAULT_CACHE_ANY_VALUE params view_instance view_method request args kwargs =
     (case view_instance of
        Some v \<Rightarrow> Inr (FText (join_dot [view_module v, view_class_name v]))
      | None \<Rightarrow> Inr DEFAULT_CACHE_ANY_VALUE)"

definition UniqueMethodIdKeyBit_get_data ::
  "fragment \<Rightarrow> params \<Rightarrow> py_view option \<Rightarrow> py_method option \<Rightarrow> py_request option \<Rightarrow>
   pyval list \<Rightarrow> dict \<Rightarrow> error + fragment" where
  "UniqueMethodIdKeyBit_get_data DEFAULT_CACHE_ANY_VALUE params view_instance view_method request args kwargs =
     (case (view_instance, view_method) of
        (Some v, Some m) \<Rightarrow> Inr (FText (join_dot [view_module v, view_class_name v, m]))
      | _ \<Rightarrow> Inr DEFAULT_CACHE_ANY_VALUE)"

text \<open>\<open>get_language()\<close> reads the active locale of the serving thread: an argument here.\<close>

definition LanguageKeyBit_get_data ::
  "pyval \<Rightarrow> params \<Rightarrow> py_view option \<Rightarrow> py_method option \<Rightarrow> py_request option \<Rightarrow>
   pyval list \<Rightarrow> dict \<Rightarrow> error + fragment" where
  "LanguageKeyBit_get_data get_language params view_instance view_method request args kwargs =
     Inr (FText (force_text get_language))"

definition FormatKeyBit_get_data ::
  "fragment \<Rightarrow> params \<Rightarrow> py_view option \<Rightarrow> py_method option \<Rightarrow> py_request option \<Rightarrow>
   pyval list \<Rightarrow> dict \<Rightarrow> error + fragment" where
  "FormatKeyBit_get_data DEFAULT_CACHE_ANY_VALUE params view_instance view_method request args kwargs =
     (case request of
        Some r \<Rightarrow>
          (case accepted_renderer r of
             NoAttr \<Rightarrow> Inl AttributeError
           | Attr rend \<Rightarrow> Inr (FText (force_text (format rend))))
      | None \<Rightarrow> Inr DEFAULT_CACHE_ANY_VALUE)"

definition get_id_from_user :: "py_user \<Rightarrow> pyval" where
  "get_id_from_user user = pk user"

definition UserKeyBit_get_data ::
  "fragment \<Rightarrow> params \<Rightarrow> py_view option \<Rightarrow> py_method option \<Rightarrow> py_request option \<Rightarrow>
   pyval list \<Rightarrow> dict \<Rightarrow> error + fragment" where
  "UserKeyBit_get_data DEFAULT_CACHE_ANY_VALUE params view_instance view_method request args kwargs =
     (case request of
        None \<Rightarrow> Inr DEFAULT_CACHE_ANY_VALUE
      | Some r \<Rightarrow>
          (case request_user r of
             Attr (Some user) \<Rightarrow>
               (if is_authenticated user
                then Inr (FText (force_text (get_id_from_user user)))
                else Inr (FText ''anonymous''))
           | _ \<Rightarrow> Inr (FText ''anonymous'')))"

subsection \<open>Dict-sourced bits\<close>

text \<open>
  The loop of \<open>KeyBitDictBase.get_data\<close>. \<open>data[k] = v\<close> on an insertion-ordered dict is
  \<open>AList.update\<close>: an existing key keeps its position and takes the new value, a new key
  goes to the end. The two key transforms are methods a subclass overrides; they may raise.
\<close>

fun collect_items ::
  "(pyval \<Rightarrow> error + pyval) \<Rightarrow> (pyval \<Rightarrow> error + pyval) \<Rightarrow> dict \<Rightarrow> pyval list \<Rightarrow>
   (pyval \<times> string) list \<Rightarrow> error + (pyval \<times> string) list" where
  "collect_items prepare_retrieving prepare_assignment source_dict [] data = Inr data"
| "collect_items prepare_retrieving prepare_assignment source_dict (key # keys) data =
     (case prepare_retrieving key of
        Inl e \<Rightarrow> Inl e
      | Inr rk \<Rightarrow>
          (if dict_get source_dict rk \<noteq> VNone
           then (case prepare_assignment key of
                   Inl e \<Rightarrow> Inl e
                 | Inr ak \<Rightarrow>
                     collect_items prepare_retrieving prepare_assignment source_dict keys
                       (AList.update ak (force_text (dict_get source_dict rk)) data))
           else collect_items prepare_retrieving prepare_assignment source_dict keys data))"

text \<open>What \<open>for key in params\<close> runs over, after \<open>'*'\<close> was replaced by the source's keys.\<close>

fun selected_keys :: "params \<Rightarrow> dict \<Rightarrow> pyval list" where
  "selected_keys PStar source_dict = dict_keys source_dict"
| "selected_keys (PList keys) source_dict = keys"
| "selected_keys (PDict d) source_dict = dict_keys d"
| "selected_keys PNone source_dict = []"

definition KeyBitDictBase_get_data ::
  "(params \<Rightarrow> py_view option \<Rightarrow> py_method option \<Rightarrow> py_request option \<Rightarrow> pyval list \<Rightarrow> dict
      \<Rightarrow> error + dict) \<Rightarrow>
   (pyval \<Rightarrow> error + pyval) \<Rightarrow> (pyval \<Rightarrow> error + pyval) \<Rightarrow>
   params \<Rightarrow> py_view option \<Rightarrow> py_method option \<Rightarrow> py_request option \<Rightarrow> pyval list \<Rightarrow> dict \<Rightarrow>
   error + fragment" where
  "KeyBitDictBase_get_data get_source_dict_m prepare_retrieving prepare_assignment
       params view_instance view_method request args kwargs =
     (if params \<noteq> PNone
      then (case get_source_dict_m params view_instance view_method request args kwargs of
              Inl e \<Rightarrow> Inl e
            | Inr source_dict \<Rightarrow>
                (case collect_items prepare_retrieving prepare_assignment source_dict
                        (selected_keys params source_dict) [] of
                   Inl e \<Rightarrow> Inl e
                 | Inr data \<Rightarrow> Inr (FDict data)))
      else Inr (FDict []))"

text \<open>
  Modelled from the spec: \<open>rest_framework_extensions.utils.prepare_header_name\<close> is not
  among the sources. The spec has it map a lower-cased header name to the
  metadata-storage convention, so that \<open>accept-language\<close> finds the entry
  \<open>HTTP_ACCEPT_LANGUAGE\<close> of the request metadata.
\<close>

definition prepare_header_name :: "string \<Rightarrow> string" where
  "prepare_header_name name = upper (''http_'' @ replace_dash name)"

text \<open>The five concrete dict-sourced classes, and the methods each one resolves to.\<close>

datatype dict_bit =
    HeadersKeyBit
  | RequestMetaKeyBit
  | QueryParamsKeyBit
  | PaginationKeyBit
  | KwargsKeyBit

fun get_source_dict ::
  "dict_bit \<Rightarrow> params \<Rightarrow> py_view option \<Rightarrow> py_method option \<Rightarrow> py_request option \<Rightarrow>
   pyval list \<Rightarrow> dict \<Rightarrow> error + dict" where
  "get_source_dict HeadersKeyBit params view_instance view_method request args kwargs =
     (case request of None \<Rightarrow> Inl AttributeError | Some r \<Rightarrow> Inr (META r))"
| "get_source_dict RequestMetaKeyBit params view_instance view_method request args kwargs =
     (case request of None \<Rightarrow> Inl AttributeError | Some r \<Rightarrow> Inr (META r))"
| "get_source_dict QueryParamsKeyBit params view_instance view_method request args kwargs =
     (case request of None \<Rightarrow> Inl AttributeError | Some r \<Rightarrow> Inr (GET r))"
| "get_source_dict PaginationKeyBit params view_instance view_method request args kwargs =
     (case request of None \<Rightarrow> Inl AttributeError | Some r \<Rightarrow> Inr (GET r))"
| "get_source_dict KwargsKeyBit params view_instance view_method request args kwargs =
     Inr kwargs"

text \<open>\<open>key.lower()\<close> exists on strings only.\<close>

fun prepare_key_for_value_retrieving :: "dict_bit \<Rightarrow> pyval \<Rightarrow> error + pyval" where
  "prepare_key_for_value_retrieving HeadersKeyBit key =
     (case key of
        VStr s \<Rightarrow> Inr (VStr (prepare_header_name (lower s)))
      | _ \<Rightarrow> Inl AttributeError)"
| "prepare_key_for_value_retrieving cls key = Inr key"

fun prepare_key_for_value_assignment :: "dict_bit \<Rightarrow> pyval \<Rightarrow> error + pyval" where
  "prepare_key_for_value_assignment HeadersKeyBit key =
     (case key of
        VStr s \<Rightarrow> Inr (VStr (lower s))
      | _ \<Rightarrow> Inl AttributeError)"
| "prepare_key_for_value_assignment cls key = Inr key"

text \<open>
  The selector \<open>PaginationKeyBit.get_data\<close> builds: \<open>hasattr\<close> is false on a missing
  attribute and on every attribute of \<open>None\<close>.
\<close>

definition attr_list :: "'a attr \<Rightarrow> 'a list" where
  "attr_list a = (case a of NoAttr \<Rightarrow> [] | Attr x \<Rightarrow> [x])"

definition pagination_params :: "py_view option \<Rightarrow> pyval list" where
  "pagination_params view_instance =
     (case view_instance of
        None \<Rightarrow> []
      | Some v \<Rightarrow>
          (case paginator v of
             Attr (Some p) \<Rightarrow> attr_list (page_query_param p) @ attr_list (page_size_query_param p)
           | _ \<Rightarrow> []))"

text \<open>\<open>get_data\<close> of a dict-sourced class: PaginationKeyBit overrides it, the others inherit.\<close>

definition DictKeyBit_get_data ::
  "dict_bit \<Rightarrow> params \<Rightarrow> py_view option \<Rightarrow> py_method option \<Rightarrow> py_request option \<Rightarrow>
   pyval list \<Rightarrow> dict \<Rightarrow> error + fragment" where
  "DictKeyBit_get_data cls params view_instance view_method request args kwargs =
     KeyBitDictBase_get_data (get_source_dict cls)
       (prepare_key_for_value_retrieving cls) (prepare_key_for_value_assignment cls)
       (if cls = PaginationKeyBit then PList (pagination_params view_instance) else params)
       view_instance view_method request args kwargs"

subsection \<open>Model-identity bit\<close>

text \<open>
  \<open>if params: model_class = params.get('class', None)\<close>: an empty container is false, and
  only a mapping has \<open>get\<close>.
\<close>

fun params_class :: "params \<Rightarrow> error + model_class option" where
  "params_class PNone = Inr None"
| "params_class PStar = Inl AttributeError"
| "params_class (PList []) = Inr None"
| "params_class (PList (x # xs)) = Inl AttributeError"
| "params_class (PDict []) = Inr None"
| "params_class (PDict (x # xs)) =
     (case map_of (x # xs) (VStr ''class'') of None \<Rightarrow> Inr None | Some c \<Rightarrow> Inr c)"

definition ModelNameKeyBit_get_data ::
  "fragment \<Rightarrow> params \<Rightarrow> py_view option \<Rightarrow> py_method option \<Rightarrow> py_request option \<Rightarrow>
   pyval list \<Rightarrow> dict \<Rightarrow> error + fragment" where
  "ModelNameKeyBit_get_data DEFAULT_CACHE_ANY_VALUE params view_instance view_method request args kwargs =
     (case params_class params of
        Inl e \<Rightarrow> Inl e
      | Inr (Some model_class) \<Rightarrow>
          Inr (FText (join_dot [cls_module model_class, cls_name model_class]))
      | Inr None \<Rightarrow>
          (case view_instance of
             Some v \<Rightarrow>
               (case get_queryset v of
                  Inl e \<Rightarrow> Inl e
                | Inr qs \<Rightarrow>
                    Inr (FText (join_dot [cls_module (qs_model qs), cls_name (qs_model qs)])))
           | None \<Rightarrow> Inr DEFAULT_CACHE_ANY_VALUE))"

subsection \<open>Queryset-derived bits\<close>

definition SqlQueryKeyBitBase_get_queryset_query_string :: "queryset \<Rightarrow> error + fragment" where
  "SqlQueryKeyBitBase_get_queryset_query_string queryset =
     (if is_EmptyQuerySet queryset then Inr FNone
      else (case query_str queryset of
              Inr s \<Rightarrow> Inr (FText (force_text (VStr s)))
            | Inl e \<Rightarrow> if e = EmptyResultSet then Inr FNone else Inl e))"

text \<open>
  \<open>compat.queryset_to_value_list\<close> is not among the sources: an argument. The row count is
  read outside the \<open>try\<close>, the rendering and the conversion inside it.
\<close>

definition ModelInstanceKeyBitBase_get_queryset_query_values ::
  "(string \<Rightarrow> error + fragment) \<Rightarrow> queryset \<Rightarrow> error + fragment" where
  "ModelInstanceKeyBitBase_get_queryset_query_values queryset_to_value_list queryset =
     (if is_EmptyQuerySet queryset then Inr FNone
      else (case qs_count queryset of
              Inl e \<Rightarrow> Inl e
            | Inr n \<Rightarrow>
                (if n = 0 then Inr FNone
                 else (case values_list_text queryset of
                         Inl e \<Rightarrow> if e = EmptyResultSet then Inr FNone else Inl e
                       | Inr s \<Rightarrow>
                           (case queryset_to_value_list s of
                              Inl e \<Rightarrow> if e = EmptyResultSet then Inr FNone else Inl e
                            | Inr f \<Rightarrow> Inr f)))))"

text \<open>\<open>view_instance.filter_queryset(view_instance.get_queryset())\<close>\<close>

definition filtered_queryset :: "py_view \<Rightarrow> error + queryset" where
  "filtered_queryset v =
     (case get_queryset v of Inl e \<Rightarrow> Inl e | Inr qs \<Rightarrow> filter_queryset v qs)"


definition ListSqlQueryKeyBit_get_data ::
  "params \<Rightarrow> py_view option \<Rightarrow> py_method option \<Rightarrow> py_request option \<Rightarrow>
   pyval list \<Rightarrow> dict \<Rightarrow> error + fragment" where
  "ListSqlQueryKeyBit_get_data params view_instance view_method request args kwargs =
     (case view_instance of
        None \<Rightarrow> Inl AttributeError
      | Some v \<Rightarrow>
          (case filtered_queryset v of
             Inl e \<Rightarrow> Inl e
           | Inr queryset \<Rightarrow> SqlQueryKeyBitBase_get_queryset_query_string queryset))"



definition ListModelKeyBit_get_data ::
  "(string \<Rightarrow> error + fragment) \<Rightarrow> params \<Rightarrow> py_view option \<Rightarrow> py_method option \<Rightarrow>
   py_request option \<Rightarrow> pyval list \<Rightarrow> dict \<Rightarrow> error + fragment" where
  "ListModelKeyBit_get_data queryset_to_value_list params view_instance view_method request args kwargs =
     (case view_instance of
        None \<Rightarrow> Inl AttributeError
      | Some v \<Rightarrow>
          (case filtered_queryset v of
             Inl e \<Rightarrow> Inl e
           | Inr queryset \<Rightarrow>
               ModelInstanceKeyBitBase_get_queryset_query_values queryset_to_value_list
                 queryset))"

subsection \<open>Positional-argument bit\<close>

text \<open>
  \<open>args[i]\<close> on a tuple: an integer index counts from the end when negative and raises
  IndexError out of range; any other index raises TypeError.
\<close>

definition tuple_getitem :: "pyval list \<Rightarrow> pyval \<Rightarrow> error + pyval" where
  "tuple_getitem args i =
     (case i of
        VInt n \<Rightarrow>
          (if - int (length args) \<le> n \<and> n < int (length args)
           then Inr (args ! nat (if n < 0 then int (length args) + n else n))
           else Inl IndexError)
      | _ \<Rightarrow> Inl TypeError)"

text \<open>\<open>[args[i] for i in params]\<close>: the first failing index ends the comprehension.\<close>

fun gather :: "pyval list \<Rightarrow> pyval list \<Rightarrow> error + pyval list" where
  "gather args [] = Inr []"
| "gather args (i # rest) =
     (case tuple_getitem args i of
        Inl e \<Rightarrow> Inl e
      | Inr x \<Rightarrow> (case gather args rest of Inl e \<Rightarrow> Inl e | Inr xs \<Rightarrow> Inr (x # xs)))"

definition ArgsKeyBit_get_data ::
  "params \<Rightarrow> py_view option \<Rightarrow> py_method option \<Rightarrow> py_request option \<Rightarrow>
   pyval list \<Rightarrow> dict \<Rightarrow> error + fragment" where
  "ArgsKeyBit_get_data params view_instance view_method request args kwargs =
     (if params = PStar then Inr (FSeq args)
      else if params \<noteq> PNone
      then (case gather args (selected_keys params []) of
              Inl e \<Rightarrow> Inl e
            | Inr xs \<Rightarrow> Inr (FSeq xs))
      else Inr (FSeq []))"

subsection \<open>An example context\<close>

text \<open>
  A view over \<open>app.models.Widget\<close> with a paginator that has a page-size parameter only,
  a few querysets, and a request; the concrete inputs of the checks below.
\<close>

definition Widget :: model_class where
  "Widget = \<lparr>cls_module = ''app.models'', cls_name = ''Widget''\<rparr>"

definition Gadget :: model_class where
  "Gadget = \<lparr>cls_module = ''app.models'', cls_name = ''Gadget''\<rparr>"

definition no_rows :: queryset where
  "no_rows = QuerySet Widget False (Inr ''SELECT id FROM widget WHERE id = 7'') (Inr 0)
     (Inr ''[]'') (\<lambda>field value. Inl (OtherException ''not used''))"

definition unsatisfiable :: queryset where
  "unsatisfiable = QuerySet Widget False (Inl EmptyResultSet) (Inr 0)
     (Inr ''[]'') (\<lambda>field value. Inl (OtherException ''not used''))"

definition none_queryset :: queryset where
  "none_queryset = QuerySet Widget True (Inl EmptyResultSet) (Inr 0)
     (Inr ''[]'') (\<lambda>field value. Inl (OtherException ''not used''))"

definition widgets :: queryset where
  "widgets = QuerySet Widget False (Inr ''SELECT id FROM widget'') (Inr 3)
     (Inr ''[(1,), (2,), (3,)]'')
     (\<lambda>field value.
        case value of
          VInt i \<Rightarrow> Inr no_rows
        | VNone \<Rightarrow> Inr unsatisfiable
        | VStr s \<Rightarrow> Inl ValueError)"

definition raising_values :: queryset where
  "raising_values = QuerySet Widget False (Inl EmptyResultSet) (Inr 1)
     (Inl EmptyResultSet) (\<lambda>field value. Inl (OtherException ''not used''))"

text \<open>
  A queryset over a field whose conversion of a text value fails with Django's
  ValidationError (which is not a ValueError), as a UUID or a date field does.
\<close>

definition uuid_widgets :: queryset where
  "uuid_widgets = QuerySet Widget False (Inr ''SELECT id FROM widget'') (Inr 3)
     (Inr ''[(1,), (2,), (3,)]'')
     (\<lambda>field value.
        case value of
          VStr s \<Rightarrow> Inl ValidationError
        | _ \<Rightarrow> Inr no_rows)"

text \<open>
  Two querysets whose query text cannot be compiled: one that still counts and renders a
  row, and one on which every operation raises the empty-result condition.
\<close>

definition uncompilable_rows :: queryset where
  "uncompilable_rows = QuerySet Widget False (Inl EmptyResultSet) (Inr 1)
     (Inr ''[(1,)]'') (\<lambda>field value. Inl (OtherException ''not used''))"

definition uncompilable :: queryset where
  "uncompilable = QuerySet Widget False (Inl EmptyResultSet) (Inl EmptyResultSet)
     (Inl EmptyResultSet) (\<lambda>field value. Inl (OtherException ''not used''))"

definition size_only_paginator :: py_paginator where
  "size_only_paginator =
     \<lparr>page_query_param = NoAttr, page_size_query_param = Attr (VStr ''page_size'')\<rparr>"

definition widget_view :: "queryset \<Rightarrow> pyval \<Rightarrow> py_view" where
  "widget_view qs lookup_value =
     \<lparr>view_module = ''app.views'', view_class_name = ''WidgetView'',
      paginator = Attr (Some size_only_paginator),
      get_queryset = Inr qs, filter_queryset = Inr,
      view_kwargs = [(VStr ''pk'', lookup_value)], lookup_field = ''pk''\<rparr>"

definition example_request :: py_request where
  "example_request =
     \<lparr>accepted_renderer = Attr \<lparr>format = VStr ''json''\<rparr>,
      request_user = Attr (Some \<lparr>is_authenticated = True, pk = VInt 10\<rparr>),
      META = [(VStr ''HTTP_ACCEPT_LANGUAGE'', VStr ''ru'')],
      GET = [(VStr ''page_size'', VStr ''100''), (VStr ''page'', VStr ''1'')]\<rparr>"

lemmas example_defs = Widget_def Gadget_def no_rows_def unsatisfiable_def none_queryset_def
  widgets_def raising_values_def uuid_widgets_def uncompilable_rows_def uncompilable_def
  size_only_paginator_def widget_view_def example_request_def

section \<open>Properties\<close>

subsection \<open>User bit\<close>

text \<open>
  C8. The User bit returns the sentinel when the request is null, the literal
  \<open>anonymous\<close> when the request has no \<open>user\<close> attribute, a null user or a user that is
  not authenticated, and the text of the user's id when the user is authenticated;
  for id 10 that is \<open>10\<close>.
\<close>

theorem UserKeyBit_get_data_values:
  "UserKeyBit_get_data sentinel params view_instance view_method None args kwargs = Inr sentinel
   \<and> UserKeyBit_get_data sentinel params view_instance view_method
        (Some (r\<lparr>request_user := NoAttr\<rparr>)) args kwargs = Inr (FText ''anonymous'')
   \<and> UserKeyBit_get_data sentinel params view_instance view_method
        (Some (r\<lparr>request_user := Attr None\<rparr>)) args kwargs = Inr (FText ''anonymous'')
   \<and> UserKeyBit_get_data sentinel params view_instance view_method
        (Some (r\<lparr>request_user := Attr (Some (u\<lparr>is_authenticated := False\<rparr>))\<rparr>)) args kwargs
        = Inr (FText ''anonymous'')
   \<and> UserKeyBit_get_data sentinel params view_instance view_method
        (Some (r\<lparr>request_user := Attr (Some (u\<lparr>is_authenticated := True\<rparr>))\<rparr>)) args kwargs
        = Inr (FText (force_text (pk u)))
   \<and> UserKeyBit_get_data sentinel params view_instance view_method
        (Some (r\<lparr>request_user := Attr (Some \<lparr>is_authenticated = True, pk = VInt 10\<rparr>)\<rparr>))
        args kwargs
        = Inr (FText ''10'')"
  by (simp add: UserKeyBit_get_data_def get_id_from_user_def str_int_def str_nat.simps
      digit_char_def)

subsection \<open>ModelName bit\<close>

text \<open>
  C7. The ModelName bit resolves in this order: a model class under the key \<open>class\<close> of
  \<open>params\<close> gives that class's \<open>module.Name\<close> whatever the view is; without one, a present
  view gives the \<open>module.Name\<close> of its queryset's model; without a view the result is
  the sentinel.
\<close>

theorem ModelNameKeyBit_resolution:
  "(map_of d (VStr ''class'') = Some (Some model_class) \<longrightarrow>
      ModelNameKeyBit_get_data sentinel (PDict d) view_instance view_method request args kwargs
        = Inr (FText (cls_module model_class @ ''.'' @ cls_name model_class)))
   \<and> (params_class params = Inr None \<and> get_queryset v = Inr qs \<longrightarrow>
      ModelNameKeyBit_get_data sentinel params (Some v) view_method request args kwargs
        = Inr (FText (cls_module (qs_model qs) @ ''.'' @ cls_name (qs_model qs))))
   \<and> (params_class params = Inr None \<longrightarrow>
      ModelNameKeyBit_get_data sentinel params None view_method request args kwargs
        = Inr sentinel)"
proof (intro conjI impI)
  assume h: "map_of d (VStr ''class'') = Some (Some model_class)"
  then have "d \<noteq> []" by auto
  then obtain x xs where "d = x # xs" by (cases d) auto
  with h have "params_class (PDict d) = Inr (Some model_class)" by simp
  then show "ModelNameKeyBit_get_data sentinel (PDict d) view_instance view_method request
        args kwargs
        = Inr (FText (cls_module model_class @ ''.'' @ cls_name model_class))"
    by (simp add: ModelNameKeyBit_get_data_def)
next
  assume "params_class params = Inr None \<and> get_queryset v = Inr qs"
  then show "ModelNameKeyBit_get_data sentinel params (Some v) view_method request args kwargs
        = Inr (FText (cls_module (qs_model qs) @ ''.'' @ cls_name (qs_model qs)))"
    by (simp add: ModelNameKeyBit_get_data_def)
next
  assume "params_class params = Inr None"
  then show "ModelNameKeyBit_get_data sentinel params None view_method request args kwargs
        = Inr sentinel"
    by (simp add: ModelNameKeyBit_get_data_def)
qed

theorem ModelNameKeyBit_resolution_witness:
  "ModelNameKeyBit_get_data (FText ''*'') (PDict [(VStr ''class'', Some Gadget)])
      (Some (widget_view widgets (VInt 1))) None None [] [] = Inr (FText ''app.models.Gadget'')
   \<and> ModelNameKeyBit_get_data (FText ''*'') PNone
      (Some (widget_view widgets (VInt 1))) None None [] [] = Inr (FText ''app.models.Widget'')
   \<and> ModelNameKeyBit_get_data (FText ''*'') PNone None None None [] [] = Inr (FText ''*'')"
  using ModelNameKeyBit_resolution [of "[(VStr ''class'', Some Gadget)]" Gadget "FText ''*''"
      "Some (widget_view widgets (VInt 1))" None None "[]" "[]" PNone
      "widget_view widgets (VInt 1)" widgets]
  by (simp add: example_defs)

subsection \<open>Args bit\<close>

lemma gather_valid:
  "\<forall>i\<in>set idx. - int (length args) \<le> i \<and> i < int (length args) \<Longrightarrow>
   gather args (map VInt idx) =
     Inr (map (\<lambda>i. args ! nat (if i < 0 then int (length args) + i else i)) idx)"
  by (induction idx) (simp_all add: tuple_getitem_def)

text \<open>
  C9. The Args bit returns the whole positional-argument sequence for the wildcard, the
  empty sequence for a null selector, and for a list of valid indices the arguments at
  those indices in the selector's order (a negative index counting from the end).
\<close>

theorem ArgsKeyBit_get_data_values:
  "ArgsKeyBit_get_data PStar view_instance view_method request args kwargs = Inr (FSeq args)
   \<and> ArgsKeyBit_get_data PNone view_instance view_method request args kwargs = Inr (FSeq [])
   \<and> ((\<forall>i\<in>set idx. - int (length args) \<le> i \<and> i < int (length args)) \<longrightarrow>
        ArgsKeyBit_get_data (PList (map VInt idx)) view_instance view_method request args kwargs
          = Inr (FSeq (map (\<lambda>i. args ! nat (if i < 0 then int (length args) + i else i)) idx)))"
  by (simp add: ArgsKeyBit_get_data_def gather_valid)

theorem ArgsKeyBit_get_data_values_witness:
  "ArgsKeyBit_get_data (PList [VInt 0, VInt 2]) None None None
      [VStr ''a'', VStr ''b'', VStr ''c''] [] = Inr (FSeq [VStr ''a'', VStr ''c''])
   \<and> ArgsKeyBit_get_data (PList [VInt 2, VInt 0]) None None None
      [VStr ''a'', VStr ''b'', VStr ''c''] [] = Inr (FSeq [VStr ''c'', VStr ''a''])"
  using ArgsKeyBit_get_data_values [of None None None "[VStr ''a'', VStr ''b'', VStr ''c'']"
      "[]" "[0, 2]"]
    ArgsKeyBit_get_data_values [of None None None "[VStr ''a'', VStr ''b'', VStr ''c'']"
      "[]" "[2, 0]"]
  by simp

lemma gather_out_of_range:
  "VInt i \<in> set keys \<Longrightarrow> int (length args) \<le> i \<Longrightarrow> \<exists>e. gather args keys = Inl e"
  by (induction keys) (auto simp: tuple_getitem_def split: sum.splits pyval.splits)

lemma gather_int_error:
  "gather args (map VInt idx) = Inl e \<Longrightarrow> e = IndexError"
  by (induction idx) (auto simp: tuple_getitem_def split: sum.splits if_splits)

text \<open>
  C10. With an explicit selector that contains an index greater than or equal to the
  number of positional arguments, the Args bit raises: it returns no fragment at all,
  and when every selector entry is an integer the exception is IndexError.
\<close>

theorem ArgsKeyBit_index_out_of_range:
  assumes "VInt i \<in> set keys" and "int (length args) \<le> i"
  shows "(\<exists>e. ArgsKeyBit_get_data (PList keys) view_instance view_method request args kwargs
              = Inl e)
    \<and> (keys = map VInt idx \<longrightarrow>
         ArgsKeyBit_get_data (PList keys) view_instance view_method request args kwargs
           = Inl IndexError)"
proof -
  from assms obtain e where e: "gather args keys = Inl e"
    using gather_out_of_range by blast
  then have "keys = map VInt idx \<longrightarrow> e = IndexError"
    using gather_int_error by blast
  with e show ?thesis
    by (auto simp: ArgsKeyBit_get_data_def)
qed

theorem ArgsKeyBit_index_out_of_range_witness:
  "VInt 3 \<in> set [VInt 0, VInt 3] \<and> int (length [VStr ''a'', VStr ''b'', VStr ''c'']) \<le> 3
   \<and> ArgsKeyBit_get_data (PList [VInt 0, VInt 3]) None None None
       [VStr ''a'', VStr ''b'', VStr ''c''] []
       = Inl IndexError"
  using ArgsKeyBit_index_out_of_range [of 3 "[VInt 0, VInt 3]"
      "[VStr ''a'', VStr ''b'', VStr ''c'']" None None None "[]" "[0, 3]"]
  by simp

subsection \<open>Null context\<close>

text \<open>
  C1, as stated, fails: with a null request the Headers bit and the Pagination bit raise
  AttributeError, with a null view the queryset bits raise AttributeError, the
  UniqueViewId bit of a present view returns the view's id although the request and the
  method are null, and the Language bit returns the locale with everything null.
\<close>

theorem null_context_counterexample:
  "DictKeyBit_get_data HeadersKeyBit (PList [VStr ''Accept-Language'']) None None None [] []
      = Inl AttributeError
   \<and> DictKeyBit_get_data PaginationKeyBit PStar (Some (widget_view widgets (VInt 1))) (Some ''list'') None [] []
      = Inl AttributeError
   \<and> ListSqlQueryKeyBit_get_data PNone None None (Some example_request) [] [] = Inl AttributeError
   \<and> ListModelKeyBit_get_data (\<lambda>s. Inr (FText s)) PNone None None (Some example_request) [] []
      = Inl AttributeError
   \<and> UniqueViewIdKeyBit_get_data (FText ''*'') PNone (Some (widget_view widgets (VInt 1))) None None [] []
      = Inr (FText ''app.views.WidgetView'')
   \<and> LanguageKeyBit_get_data (VStr ''en'') PNone None None None [] [] = Inr (FText ''en'')"
  by (simp add: DictKeyBit_get_data_def KeyBitDictBase_get_data_def ListSqlQueryKeyBit_get_data_def
      ListModelKeyBit_get_data_def UniqueViewIdKeyBit_get_data_def LanguageKeyBit_get_data_def
      example_defs)

text \<open>
  C1, amended. Each scalar bit that has a fallback returns the sentinel, without raising,
  when the context object it reads is null: UniqueViewId for a null view, UniqueMethodId
  for a null view or a null method, Format and User for a null request, ModelName for a
  null view when no \<open>params\<close> are configured.
\<close>

theorem scalar_bits_sentinel:
  "UniqueViewIdKeyBit_get_data sentinel params None view_method request args kwargs = Inr sentinel
   \<and> UniqueMethodIdKeyBit_get_data sentinel params None view_method request args kwargs = Inr sentinel
   \<and> UniqueMethodIdKeyBit_get_data sentinel params view_instance None request args kwargs = Inr sentinel
   \<and> FormatKeyBit_get_data sentinel params view_instance view_method None args kwargs = Inr sentinel
   \<and> UserKeyBit_get_data sentinel params view_instance view_method None args kwargs = Inr sentinel
   \<and> ModelNameKeyBit_get_data sentinel PNone None view_method request args kwargs = Inr sentinel"
  by (simp add: UniqueViewIdKeyBit_get_data_def UniqueMethodIdKeyBit_get_data_def
      FormatKeyBit_get_data_def UserKeyBit_get_data_def ModelNameKeyBit_get_data_def
      split: option.splits)

subsection \<open>Pagination bit\<close>

lemma identity_transforms:
  "cls \<noteq> HeadersKeyBit \<Longrightarrow> prepare_key_for_value_retrieving cls = Inr"
  "cls \<noteq> HeadersKeyBit \<Longrightarrow> prepare_key_for_value_assignment cls = Inr"
  by (cases cls; rule ext; simp)+

lemma Pagination_source_dict:
  "get_source_dict PaginationKeyBit = get_source_dict QueryParamsKeyBit"
  by (intro ext) simp

text \<open>
  C2. The Pagination bit is the QueryParams bit run with the selector made of the
  paginator's \<open>page_query_param\<close>, if it has one, followed by its
  \<open>page_size_query_param\<close>, if it has one; the configured \<open>params\<close> play no part. With
  a paginator that only has the page-size parameter \<open>page_size\<close> and the query string
  \<open>{page_size: 100, page: 1}\<close> the result is \<open>{page_size: 100}\<close>.
\<close>

theorem PaginationKeyBit_selector:
  "DictKeyBit_get_data PaginationKeyBit params view_instance view_method request args kwargs
     = DictKeyBit_get_data QueryParamsKeyBit
         (PList (case view_instance of
                   None \<Rightarrow> []
                 | Some v \<Rightarrow>
                     (case paginator v of
                        Attr (Some p) \<Rightarrow>
                          (case page_query_param p of NoAttr \<Rightarrow> [] | Attr x \<Rightarrow> [x])
                          @ (case page_size_query_param p of NoAttr \<Rightarrow> [] | Attr x \<Rightarrow> [x])
                      | _ \<Rightarrow> [])))
         view_instance view_method request args kwargs
   \<and> DictKeyBit_get_data PaginationKeyBit params
        (Some (v\<lparr>paginator := Attr (Some \<lparr>page_query_param = NoAttr,
                                          page_size_query_param = Attr (VStr ''page_size'')\<rparr>)\<rparr>))
        view_method
        (Some (r\<lparr>GET := [(VStr ''page_size'', VStr ''100''), (VStr ''page'', VStr ''1'')]\<rparr>))
        args kwargs
      = Inr (FDict [(VStr ''page_size'', ''100'')])"
proof
  have "pagination_params view_instance =
      (case view_instance of
         None \<Rightarrow> []
       | Some v \<Rightarrow>
           (case paginator v of
              Attr (Some p) \<Rightarrow>
                (case page_query_param p of NoAttr \<Rightarrow> [] | Attr x \<Rightarrow> [x])
                @ (case page_size_query_param p of NoAttr \<Rightarrow> [] | Attr x \<Rightarrow> [x])
            | _ \<Rightarrow> []))"
    by (simp add: pagination_params_def attr_list_def split: option.splits attr.splits)
  then show "DictKeyBit_get_data PaginationKeyBit params view_instance view_method request
      args kwargs
     = DictKeyBit_get_data QueryParamsKeyBit
         (PList (case view_instance of
                   None \<Rightarrow> []
                 | Some v \<Rightarrow>
                     (case paginator v of
                        Attr (Some p) \<Rightarrow>
                          (case page_query_param p of NoAttr \<Rightarrow> [] | Attr x \<Rightarrow> [x])
                          @ (case page_size_query_param p of NoAttr \<Rightarrow> [] | Attr x \<Rightarrow> [x])
                      | _ \<Rightarrow> [])))
         view_instance view_method request args kwargs"
    by (simp add: DictKeyBit_get_data_def identity_transforms Pagination_source_dict)
next
  show "DictKeyBit_get_data PaginationKeyBit params
        (Some (v\<lparr>paginator := Attr (Some \<lparr>page_query_param = NoAttr,
                                          page_size_query_param = Attr (VStr ''page_size'')\<rparr>)\<rparr>))
        view_method
        (Some (r\<lparr>GET := [(VStr ''page_size'', VStr ''100''), (VStr ''page'', VStr ''1'')]\<rparr>))
        args kwargs
      = Inr (FDict [(VStr ''page_size'', ''100'')])"
    by (simp add: DictKeyBit_get_data_def KeyBitDictBase_get_data_def pagination_params_def
        attr_list_def dict_get_def)
qed

subsection \<open>Queryset-derived bits\<close>







subsection \<open>Dict-sourced bits: writing into the output mapping\<close>

text \<open>
  Facts about a run of \<open>data[k] = v\<close> assignments on an insertion-ordered mapping: what
  it maps each key to, in which order the keys stand, and that fresh keys are appended.
\<close>

lemma update_fresh: "k \<notin> fst ` set al \<Longrightarrow> AList.update k v al = al @ [(k, v)]"
  by (induction al) auto

lemma update_member: "x \<in> set (AList.update k v al) \<Longrightarrow> x = (k, v) \<or> x \<in> set al"
  by (induction al) (auto split: if_splits)

lemma fold_update_map_of:
  "map_of (fold (\<lambda>(k, v). AList.update k v) ps data) = map_of (rev ps @ data)"
proof (induction ps arbitrary: data)
  case Nil
  then show ?case by simp
next
  case (Cons p ps)
  obtain k v where p: "p = (k, v)" by (cases p)
  show ?case
    by (simp add: Cons.IH p update_conv' map_add_upd_left flip: map_add_def)
qed

lemma fold_update_keys:
  "map fst (fold (\<lambda>(k, v). AList.update k v) ps data)
     = map fst data @ rev (remdups (rev (filter (\<lambda>x. x \<notin> set (map fst data)) (map fst ps))))"
proof (induction ps arbitrary: data)
  case Nil
  then show ?case by simp
next
  case (Cons p ps)
  obtain k v where p: "p = (k, v)" by (cases p)
  show ?case
  proof (cases "k \<in> set (map fst data)")
    case True
    then have "map fst (AList.update k v data) = map fst data"
      by (simp add: update_keys)
    with True show ?thesis
      by (simp add: Cons.IH p)
  next
    case False
    then have keys: "map fst (AList.update k v data) = map fst data @ [k]"
      by (simp add: update_keys)
    have flt: "filter (\<lambda>x. x \<notin> set (map fst data @ [k])) (map fst ps)
        = filter (\<lambda>x. x \<noteq> k) (filter (\<lambda>x. x \<notin> set (map fst data)) (map fst ps))"
      by (auto intro: filter_cong)
    have "remdups (ys @ [k]) = remdups (filter (\<lambda>x. x \<noteq> k) ys) @ [k]" for ys
      by (induction ys) auto
    then have "rev (remdups (rev (k # xs))) = k # rev (remdups (rev (filter (\<lambda>x. x \<noteq> k) xs)))"
      for xs
      by (simp add: rev_filter)
    with False show ?thesis
      by (simp add: Cons.IH p keys flt del: set_append map_append)
  qed
qed

lemma fold_update_fresh:
  "distinct (map fst ps) \<Longrightarrow> set (map fst ps) \<inter> set (map fst data) = {} \<Longrightarrow>
   fold (\<lambda>(k, v). AList.update k v) ps data = data @ ps"
proof (induction ps arbitrary: data)
  case Nil
  then show ?case by simp
next
  case (Cons p ps)
  obtain k v where p: "p = (k, v)" by (cases p)
  from Cons.prems p have fresh: "k \<notin> fst ` set data" by auto
  from Cons.prems p have "set (map fst ps) \<inter> set (map fst (data @ [(k, v)])) = {}"
    by auto
  moreover from Cons.prems have "distinct (map fst ps)" by simp
  ultimately have "fold (\<lambda>(k, v). AList.update k v) ps (data @ [(k, v)]) = (data @ [(k, v)]) @ ps"
    using Cons.IH [of "data @ [(k, v)]"] by blast
  with fresh show ?case
    by (simp add: p update_fresh)
qed

text \<open>
  The loop of \<open>get_data\<close>, when the key transforms do not raise on the selected keys, is
  that run of assignments over the selected keys whose looked-up value is not \<open>None\<close>.
\<close>

lemma collect_items_total:
  assumes "\<forall>k\<in>set keys. R k = Inr (r k) \<and> (dict_get src (r k) \<noteq> VNone \<longrightarrow> A k = Inr (a k))"
  shows "collect_items R A src keys data =
     Inr (fold (\<lambda>(k, v). AList.update k v)
            (map (\<lambda>k. (a k, force_text (dict_get src (r k))))
               (filter (\<lambda>k. dict_get src (r k) \<noteq> VNone) keys))
            data)"
  using assms by (induction keys arbitrary: data) simp_all

lemma wildcard_pairs:
  assumes "distinct (map fst src)" and "VNone \<notin> snd ` set src"
  shows "map (\<lambda>k. (k, force_text (dict_get src k)))
           (filter (\<lambda>k. dict_get src k \<noteq> VNone) (dict_keys src))
         = map (\<lambda>(k, v). (k, force_text v)) src"
proof -
  have get: "dict_get src k = v" if "(k, v) \<in> set src" for k v
    using that assms(1) by (simp add: dict_get_def)
  have nonnull: "dict_get src k \<noteq> VNone" if "k \<in> set (map fst src)" for k
  proof -
    from that obtain v where kv: "(k, v) \<in> set src" by auto
    with assms(2) have "v \<noteq> VNone" by force
    with get [OF kv] show ?thesis by simp
  qed
  then have "filter (\<lambda>k. dict_get src k \<noteq> VNone) (dict_keys src) = map fst src"
    by (simp add: dict_keys_def)
  moreover have "map (\<lambda>k. (k, force_text (dict_get src k))) (map fst src)
      = map (\<lambda>(k, v). (k, force_text v)) src"
    using get by (auto simp: case_prod_beta)
  ultimately show ?thesis by simp
qed

lemma fold_update_member:
  "x \<in> set (fold (\<lambda>(k, v). AList.update k v) ps data) \<Longrightarrow> x \<in> set ps \<or> x \<in> set data"
proof (induction ps arbitrary: data)
  case Nil
  then show ?case by simp
next
  case (Cons p ps)
  obtain k v where p: "p = (k, v)" by (cases p)
  from Cons.prems have "x \<in> set (fold (\<lambda>(k, v). AList.update k v) ps (AList.update k v data))"
    by (simp add: p)
  then have "x \<in> set ps \<or> x \<in> set (AList.update k v data)"
    by (rule Cons.IH)
  then show ?case
    using update_member [of x k v data] by (auto simp: p)
qed

lemma get_source_dict_params:
  "get_source_dict cls p view_instance view_method request args kwargs
     = get_source_dict cls p' view_instance view_method request args kwargs"
  by (cases cls) simp_all

lemma transforms_compatible:
  "prepare_key_for_value_assignment cls k1 = Inr ak \<Longrightarrow>
   prepare_key_for_value_assignment cls k2 = Inr ak \<Longrightarrow>
   prepare_key_for_value_retrieving cls k1 = prepare_key_for_value_retrieving cls k2"
  by (cases cls; cases k1; cases k2) auto

lemma transforms_succeed:
  "cls = HeadersKeyBit \<longrightarrow> (\<exists>s. k = VStr s) \<Longrightarrow>
   \<exists>rk ak. prepare_key_for_value_retrieving cls k = Inr rk
     \<and> prepare_key_for_value_assignment cls k = Inr ak"
  by (cases cls) auto

subsection \<open>Dict-sourced bits: selection\<close>

text \<open>
  C5, as stated, fails for two of the dict-sourced bits. The Pagination bit, configured
  with the wildcard, returns one entry for a query string of two: it replaces the
  selector by the paginator's parameter names. The Headers bit, with the wildcard,
  returns no entry for request metadata of one entry with a non-null value: it looks each
  source key up again under the header-name transform.
\<close>

theorem wildcard_size_counterexample:
  "length (GET example_request) = 2
   \<and> DictKeyBit_get_data PaginationKeyBit PStar (Some (widget_view widgets (VInt 1))) None
        (Some example_request) [] [] = Inr (FDict [(VStr ''page_size'', ''100'')])
   \<and> length (META example_request) = 1
   \<and> VNone \<notin> snd ` set (META example_request)
   \<and> DictKeyBit_get_data HeadersKeyBit PStar None None (Some example_request) [] []
        = Inr (FDict [])"
  by (simp add: DictKeyBit_get_data_def KeyBitDictBase_get_data_def pagination_params_def
      attr_list_def dict_get_def dict_keys_def prepare_header_name_def lower_def upper_def
      replace_dash_def lower_char_def upper_char_def example_defs)

text \<open>
  C5, amended. For the RequestMeta, QueryParams and Kwargs bits (identity key
  transforms), wildcard selection over a source mapping of N entries with no null value
  returns exactly those N entries, in the source's order, each value converted to text.
  With an explicit selector and key transforms that do not raise on it, \<open>get_data\<close> of
  the dict base returns the assignment keys of the selector keys whose looked-up value
  is not null, each at the place of its first occurrence in selector order, and maps
  each to the value of the last selector key that produced it (last write wins).
\<close>

theorem dict_bit_selection_order:
  "(cls \<in> {RequestMetaKeyBit, QueryParamsKeyBit, KwargsKeyBit}
      \<and> get_source_dict cls PStar view_instance view_method request args kwargs = Inr src
      \<and> distinct (map fst src) \<and> VNone \<notin> snd ` set src
    \<longrightarrow> DictKeyBit_get_data cls PStar view_instance view_method request args kwargs
          = Inr (FDict (map (\<lambda>(k, v). (k, force_text v)) src)))
   \<and> (get_source_dict_m (PList keys) view_instance view_method request args kwargs = Inr src'
      \<and> (\<forall>k\<in>set keys. R k = Inr (r k) \<and> (dict_get src' (r k) \<noteq> VNone \<longrightarrow> A k = Inr (a k)))
    \<longrightarrow> (\<exists>out. KeyBitDictBase_get_data get_source_dict_m R A (PList keys)
                  view_instance view_method request args kwargs = Inr (FDict out)
          \<and> map fst out
              = rev (remdups (rev (map a (filter (\<lambda>k. dict_get src' (r k) \<noteq> VNone) keys))))
          \<and> map_of out
              = map_of (rev (map (\<lambda>k. (a k, force_text (dict_get src' (r k))))
                               (filter (\<lambda>k. dict_get src' (r k) \<noteq> VNone) keys)))))"
proof (intro conjI impI)
  assume h: "cls \<in> {RequestMetaKeyBit, QueryParamsKeyBit, KwargsKeyBit}
      \<and> get_source_dict cls PStar view_instance view_method request args kwargs = Inr src
      \<and> distinct (map fst src) \<and> VNone \<notin> snd ` set src"
  then have cls: "cls \<noteq> HeadersKeyBit" "cls \<noteq> PaginationKeyBit"
    by auto
  from h have d: "distinct (map fst src)" and n: "VNone \<notin> snd ` set src"
    by simp_all
  have loop: "collect_items Inr Inr src (dict_keys src) []
      = Inr (fold (\<lambda>(k, v). AList.update k v)
              (map (\<lambda>k. (k, force_text (dict_get src k)))
                 (filter (\<lambda>k. dict_get src k \<noteq> VNone) (dict_keys src))) [])"
    by (rule collect_items_total) simp
  have "distinct (map fst (map (\<lambda>(k, v). (k, force_text v)) src))"
    using d by (simp add: case_prod_beta comp_def)
  then have "fold (\<lambda>(k, v). AList.update k v) (map (\<lambda>(k, v). (k, force_text v)) src) []
      = map (\<lambda>(k, v). (k, force_text v)) src"
    using fold_update_fresh [of "map (\<lambda>(k, v). (k, force_text v)) src" "[]"] by simp
  with loop have "collect_items Inr Inr src (dict_keys src) []
      = Inr (map (\<lambda>(k, v). (k, force_text v)) src)"
    by (simp add: wildcard_pairs [OF d n])
  with h cls show "DictKeyBit_get_data cls PStar view_instance view_method request args kwargs
          = Inr (FDict (map (\<lambda>(k, v). (k, force_text v)) src))"
    by (simp add: DictKeyBit_get_data_def KeyBitDictBase_get_data_def identity_transforms)
next
  assume h: "get_source_dict_m (PList keys) view_instance view_method request args kwargs
        = Inr src'
      \<and> (\<forall>k\<in>set keys. R k = Inr (r k) \<and> (dict_get src' (r k) \<noteq> VNone \<longrightarrow> A k = Inr (a k)))"
  let ?pairs = "map (\<lambda>k. (a k, force_text (dict_get src' (r k))))
                  (filter (\<lambda>k. dict_get src' (r k) \<noteq> VNone) keys)"
  let ?out = "fold (\<lambda>(k, v). AList.update k v) ?pairs []"
  from h have "collect_items R A src' keys [] = Inr ?out"
    using collect_items_total [of keys R r src' A a "[]"] by blast
  with h have res: "KeyBitDictBase_get_data get_source_dict_m R A (PList keys)
      view_instance view_method request args kwargs = Inr (FDict ?out)"
    by (simp add: KeyBitDictBase_get_data_def)
  have keys: "map fst ?out
      = rev (remdups (rev (map a (filter (\<lambda>k. dict_get src' (r k) \<noteq> VNone) keys))))"
    using fold_update_keys [of ?pairs "[]"] by (simp add: comp_def)
  have vals: "map_of ?out = map_of (rev ?pairs)"
    using fold_update_map_of [of ?pairs "[]"] by simp
  from res keys vals
  show "\<exists>out. KeyBitDictBase_get_data get_source_dict_m R A (PList keys)
                  view_instance view_method request args kwargs = Inr (FDict out)
          \<and> map fst out
              = rev (remdups (rev (map a (filter (\<lambda>k. dict_get src' (r k) \<noteq> VNone) keys))))
          \<and> map_of out
              = map_of (rev (map (\<lambda>k. (a k, force_text (dict_get src' (r k))))
                               (filter (\<lambda>k. dict_get src' (r k) \<noteq> VNone) keys)))"
    by blast
qed

theorem dict_bit_selection_order_witness:
  "DictKeyBit_get_data QueryParamsKeyBit PStar None None (Some example_request) [] []
      = Inr (FDict [(VStr ''page_size'', ''100''), (VStr ''page'', ''1'')])
   \<and> (\<exists>out. KeyBitDictBase_get_data (get_source_dict KwargsKeyBit) Inr (\<lambda>k. Inr (VStr ''x''))
            (PList [VStr ''b'', VStr ''a'']) None None None []
            [(VStr ''a'', VInt 1), (VStr ''b'', VInt 2)] = Inr (FDict out)
         \<and> map fst out = [VStr ''x'']
         \<and> map_of out (VStr ''x'') = Some ''1'')"
proof -
  have src: "get_source_dict QueryParamsKeyBit PStar None None (Some example_request) [] []
      = Inr [(VStr ''page_size'', VStr ''100''), (VStr ''page'', VStr ''1'')]"
    by (simp add: example_request_def)
  have first: "DictKeyBit_get_data QueryParamsKeyBit PStar None None (Some example_request) [] []
      = Inr (FDict [(VStr ''page_size'', ''100''), (VStr ''page'', ''1'')])"
    using dict_bit_selection_order [of QueryParamsKeyBit None None "Some example_request" "[]"
        "[]" "[(VStr ''page_size'', VStr ''100''), (VStr ''page'', VStr ''1'')]"] src
    by simp
  have second: "\<exists>out. KeyBitDictBase_get_data (get_source_dict KwargsKeyBit) Inr
            (\<lambda>k. Inr (VStr ''x''))
            (PList [VStr ''b'', VStr ''a'']) None None None []
            [(VStr ''a'', VInt 1), (VStr ''b'', VInt 2)] = Inr (FDict out)
         \<and> map fst out = [VStr ''x'']
         \<and> map_of out (VStr ''x'') = Some ''1''"
    using dict_bit_selection_order [of RequestMetaKeyBit None None None "[]"
        "[(VStr ''a'', VInt 1), (VStr ''b'', VInt 2)]" "[]"
        "get_source_dict KwargsKeyBit" "[VStr ''b'', VStr ''a'']"
        "[(VStr ''a'', VInt 1), (VStr ''b'', VInt 2)]" Inr "\<lambda>k. k"
        "\<lambda>k. Inr (VStr ''x'')" "\<lambda>k. VStr ''x''"]
    by (auto simp: dict_get_def str_int_def str_nat.simps digit_char_def)
  from first second show ?thesis by simp
qed

text \<open>
  C6. For each of the five dict-sourced bits, when the source mapping is available (and,
  for the Headers bit, the selected keys are strings, on which its transforms are
  defined), \<open>get_data\<close> returns a mapping such that every selected key has its
  assignment key in the mapping if and only if its looked-up source value is not
  \<open>None\<close>, an included key is mapped to the text conversion of that value, and the
  mapping holds nothing else: every entry is the text conversion of the non-null
  looked-up value of some selected key.
\<close>

theorem dict_bit_inclusion_iff:
  assumes src: "get_source_dict cls params view_instance view_method request args kwargs = Inr src"
    and sel: "sel = selected_keys
        (if cls = PaginationKeyBit then PList (pagination_params view_instance) else params) src"
    and strs: "cls = HeadersKeyBit \<longrightarrow> (\<forall>k\<in>set sel. \<exists>s. k = VStr s)"
  shows "\<exists>out. DictKeyBit_get_data cls params view_instance view_method request args kwargs
            = Inr (FDict out)
      \<and> (\<forall>key\<in>set sel. \<exists>rk ak.
            prepare_key_for_value_retrieving cls key = Inr rk
            \<and> prepare_key_for_value_assignment cls key = Inr ak
            \<and> (ak \<in> fst ` set out \<longleftrightarrow> dict_get src rk \<noteq> VNone)
            \<and> (dict_get src rk \<noteq> VNone \<longrightarrow> map_of out ak = Some (force_text (dict_get src rk))))
      \<and> (\<forall>(ak, v)\<in>set out. \<exists>key\<in>set sel. \<exists>rk.
            prepare_key_for_value_retrieving cls key = Inr rk
            \<and> prepare_key_for_value_assignment cls key = Inr ak
            \<and> dict_get src rk \<noteq> VNone
            \<and> v = force_text (dict_get src rk))"
proof -
  let ?R = "prepare_key_for_value_retrieving cls"
  let ?A = "prepare_key_for_value_assignment cls"
  let ?p = "if cls = PaginationKeyBit then PList (pagination_params view_instance) else params"
  define r where "r k = (case ?R k of Inr x \<Rightarrow> x | Inl e \<Rightarrow> k)" for k
  define a where "a k = (case ?A k of Inr x \<Rightarrow> x | Inl e \<Rightarrow> k)" for k
  have tot: "?R k = Inr (r k) \<and> ?A k = Inr (a k)" if "k \<in> set sel" for k
  proof -
    from that strs have "cls = HeadersKeyBit \<longrightarrow> (\<exists>s. k = VStr s)" by blast
    from transforms_succeed [OF this] show ?thesis
      by (auto simp: r_def a_def)
  qed
  have compat: "r k1 = r k2" if "k1 \<in> set sel" "k2 \<in> set sel" "a k1 = a k2" for k1 k2
  proof -
    from that tot have "?A k1 = Inr (a k1)" "?A k2 = Inr (a k1)" by auto
    then have "?R k1 = ?R k2" by (rule transforms_compatible)
    with that tot show ?thesis by auto
  qed
  let ?nn = "filter (\<lambda>k. dict_get src (r k) \<noteq> VNone) sel"
  let ?pairs = "map (\<lambda>k. (a k, force_text (dict_get src (r k)))) ?nn"
  let ?out = "fold (\<lambda>(k, v). AList.update k v) ?pairs []"
  have loop: "collect_items ?R ?A src sel [] = Inr ?out"
    using collect_items_total [of sel ?R r src ?A a "[]"] tot by blast
  have src': "get_source_dict cls ?p view_instance view_method request args kwargs = Inr src"
    using src
      get_source_dict_params [of cls ?p view_instance view_method request args kwargs params]
    by (simp only:)
  have dom: "fst ` set ?out = a ` set ?nn"
  proof -
    have "set (map fst ?out) = set (map a ?nn)"
      using fold_update_keys [of ?pairs "[]"] by (simp add: comp_def)
    then show ?thesis by simp
  qed
  have vals: "map_of ?out = map_of (rev ?pairs)"
    using fold_update_map_of [of ?pairs "[]"] by simp
  have pair_val: "v = force_text (dict_get src (r key))"
    if "key \<in> set sel" "(a key, v) \<in> set ?pairs" for key v
  proof -
    from that(2) obtain k' where k': "k' \<in> set ?nn" "a k' = a key"
      "v = force_text (dict_get src (r k'))"
      by auto
    then have "r k' = r key" using compat [of k' key] that(1) by simp
    with k' show ?thesis by simp
  qed
  have keyprop: "\<exists>rk ak. ?R key = Inr rk \<and> ?A key = Inr ak
      \<and> (ak \<in> fst ` set ?out \<longleftrightarrow> dict_get src rk \<noteq> VNone)
      \<and> (dict_get src rk \<noteq> VNone \<longrightarrow> map_of ?out ak = Some (force_text (dict_get src rk)))"
    if key: "key \<in> set sel" for key
  proof -
    have iff: "a key \<in> fst ` set ?out \<longleftrightarrow> dict_get src (r key) \<noteq> VNone"
    proof
      assume "a key \<in> fst ` set ?out"
      with dom obtain k' where k': "k' \<in> set ?nn" "a k' = a key" by auto
      then have "r k' = r key" using compat [of k' key] key by simp
      with k' show "dict_get src (r key) \<noteq> VNone" by simp
    next
      assume "dict_get src (r key) \<noteq> VNone"
      with key have "key \<in> set ?nn" by simp
      with dom show "a key \<in> fst ` set ?out" by blast
    qed
    have val: "map_of ?out (a key) = Some (force_text (dict_get src (r key)))"
      if nn: "dict_get src (r key) \<noteq> VNone"
    proof -
      from nn key have "a key \<in> fst ` set (rev ?pairs)" by force
      then obtain v where v: "map_of (rev ?pairs) (a key) = Some v"
        by (meson domD domI map_of_eq_None_iff not_None_eq)
      then have "(a key, v) \<in> set ?pairs"
        using map_of_SomeD [OF v] by simp
      then have "v = force_text (dict_get src (r key))"
        using pair_val [OF key] by blast
      with v vals show ?thesis by simp
    qed
    from tot [OF key] iff val show ?thesis by blast
  qed
  have itemprop: "\<exists>key\<in>set sel. \<exists>rk. ?R key = Inr rk \<and> ?A key = Inr ak
      \<and> dict_get src rk \<noteq> VNone \<and> v = force_text (dict_get src rk)"
    if "(ak, v) \<in> set ?out" for ak v
  proof -
    from that have "(ak, v) \<in> set ?pairs"
      using fold_update_member [of "(ak, v)" ?pairs "[]"] by simp
    then obtain k' where k': "k' \<in> set sel" "dict_get src (r k') \<noteq> VNone" "ak = a k'"
      "v = force_text (dict_get src (r k'))"
      by auto
    with tot [of k'] show ?thesis by blast
  qed
  have res: "DictKeyBit_get_data cls params view_instance view_method request args kwargs
      = Inr (FDict ?out)"
  proof (cases "?p = PNone")
    case True
    then have "sel = []" using sel by simp
    with True show ?thesis
      by (simp add: DictKeyBit_get_data_def KeyBitDictBase_get_data_def)
  next
    case False
    with src' loop sel show ?thesis
      by (simp add: DictKeyBit_get_data_def KeyBitDictBase_get_data_def)
  qed
  from res keyprop itemprop show ?thesis
    by (intro exI [of _ ?out]) blast
qed

theorem dict_bit_inclusion_iff_witness:
  "\<exists>out. DictKeyBit_get_data HeadersKeyBit (PList [VStr ''Accept-Language'', VStr ''X-Missing''])
            None None (Some example_request) [] [] = Inr (FDict out)
      \<and> VStr ''accept-language'' \<in> fst ` set out
      \<and> map_of out (VStr ''accept-language'') = Some ''ru''
      \<and> VStr ''x-missing'' \<notin> fst ` set out"
proof -
  let ?keys = "[VStr ''Accept-Language'', VStr ''X-Missing'']"
  let ?src = "[(VStr ''HTTP_ACCEPT_LANGUAGE'', VStr ''ru'')]"
  have src: "get_source_dict HeadersKeyBit (PList ?keys) None None (Some example_request) [] []
      = Inr ?src"
    by (simp add: example_request_def)
  have sel: "?keys = selected_keys
      (if HeadersKeyBit = PaginationKeyBit then PList (pagination_params None) else PList ?keys)
      ?src"
    by simp
  have strs: "HeadersKeyBit = HeadersKeyBit \<longrightarrow> (\<forall>k\<in>set ?keys. \<exists>s. k = VStr s)"
    by simp
  from dict_bit_inclusion_iff [where cls = HeadersKeyBit and params = "PList ?keys"
      and view_instance = None and view_method = None and request = "Some example_request"
      and args = "[]" and kwargs = "[]" and src = ?src and sel = ?keys, OF src sel strs]
  obtain out where
    res: "DictKeyBit_get_data HeadersKeyBit (PList ?keys) None None (Some example_request) [] []
        = Inr (FDict out)"
    and keys: "\<forall>key\<in>set ?keys. \<exists>rk ak.
        prepare_key_for_value_retrieving HeadersKeyBit key = Inr rk
        \<and> prepare_key_for_value_assignment HeadersKeyBit key = Inr ak
        \<and> (ak \<in> fst ` set out \<longleftrightarrow> dict_get ?src rk \<noteq> VNone)
        \<and> (dict_get ?src rk \<noteq> VNone \<longrightarrow> map_of out ak = Some (force_text (dict_get ?src rk)))"
    by blast
  have r1: "prepare_key_for_value_retrieving HeadersKeyBit (VStr ''Accept-Language'')
      = Inr (VStr ''HTTP_ACCEPT_LANGUAGE'')"
    and a1: "prepare_key_for_value_assignment HeadersKeyBit (VStr ''Accept-Language'')
      = Inr (VStr ''accept-language'')"
    and r2: "prepare_key_for_value_retrieving HeadersKeyBit (VStr ''X-Missing'')
      = Inr (VStr ''HTTP_X_MISSING'')"
    and a2: "prepare_key_for_value_assignment HeadersKeyBit (VStr ''X-Missing'')
      = Inr (VStr ''x-missing'')"
    by (simp_all add: prepare_header_name_def lower_def upper_def replace_dash_def
        lower_char_def upper_char_def)
  have g1: "dict_get ?src (VStr ''HTTP_ACCEPT_LANGUAGE'') = VStr ''ru''"
    and g2: "dict_get ?src (VStr ''HTTP_X_MISSING'') = VNone"
    by (simp_all add: dict_get_def)
  from keys r1 a1 g1 have k1: "VStr ''accept-language'' \<in> fst ` set out
      \<and> map_of out (VStr ''accept-language'') = Some ''ru''"
    by simp
  from keys r2 a2 g2 have k2: "VStr ''x-missing'' \<notin> fst ` set out"
    by simp
  from res k1 k2 show ?thesis by blast
qed

end
